theory Spec2Isabelle
  imports Complex_Main
begin

section \<open>UFO sightings: the CSV to JSON converter (scripts/csv_to_json.py)\<close>

text \<open>
  The script reads a CSV file with \<^verbatim>\<open>csv.DictReader\<close>, turns every row that has a date and
  a city into a sighting, and dumps the list of sightings as JSON. The model starts from
  the dictionaries that \<^verbatim>\<open>DictReader\<close> yields: a row maps a column name to the value of its
  cell. A cell is a string, or Python's \<^verbatim>\<open>None\<close> where the line is shorter than the header
  (\<^verbatim>\<open>DictReader\<close> fills the missing cells with \<^verbatim>\<open>restval = None\<close>). A column that is not in
  the header is not a key of the dictionary.
\<close>

subsection \<open>Values, rows, exceptions\<close>

datatype pyval = PyNone | PyStr string

type_synonym row = "string \<rightharpoonup> pyval"

datatype pyexc = KeyError string | ValueError string | TypeError | OSError

text \<open>The dictionary literal of lines 59 to 70; the two coordinates are Python floats.\<close>

record 'f sighting =
  dateTime :: pyval
  city :: pyval
  state :: pyval
  country :: pyval
  shape :: pyval
  duration :: pyval
  summary :: pyval
  posted :: pyval
  latitude :: 'f
  longitude :: 'f

text \<open>Truth value of a cell: \<^verbatim>\<open>None\<close> and the empty string are false.\<close>

definition truthy :: "pyval \<Rightarrow> bool" where
  "truthy v = (case v of PyNone \<Rightarrow> False | PyStr s \<Rightarrow> s \<noteq> [])"

text \<open>\<^verbatim>\<open>row[k]\<close>: a key that is absent raises \<^verbatim>\<open>KeyError\<close>.\<close>

definition getitem :: "row \<Rightarrow> string \<Rightarrow> pyexc + pyval" where
  "getitem r k = (case r k of None \<Rightarrow> Inl (KeyError k) | Some v \<Rightarrow> Inr v)"

text \<open>\<^verbatim>\<open>a or b\<close>.\<close>

definition py_or :: "pyval \<Rightarrow> pyval \<Rightarrow> pyval" where
  "py_or a b = (if truthy a then a else b)"

text \<open>
  \<^verbatim>\<open>float(v)\<close>. The parser of the Python runtime is a parameter \<open>pf\<close>: \<open>pf s = None\<close>
  where \<^verbatim>\<open>float(s)\<close> raises \<^verbatim>\<open>ValueError\<close>. The type \<open>'f\<close> of floats is a parameter too; its
  \<open>0\<close> stands for the literal \<^verbatim>\<open>0.0\<close>.
\<close>

definition py_float :: "(string \<Rightarrow> 'f option) \<Rightarrow> pyval \<Rightarrow> pyexc + 'f" where
  "py_float pf v =
     (case v of
        PyNone \<Rightarrow> Inl TypeError
      | PyStr s \<Rightarrow> (case pf s of None \<Rightarrow> Inl (ValueError s) | Some x \<Rightarrow> Inr x))"

definition bind_exc :: "pyexc + 'a \<Rightarrow> ('a \<Rightarrow> pyexc + 'b) \<Rightarrow> pyexc + 'b" where
  "bind_exc m f = (case m of Inl e \<Rightarrow> Inl e | Inr x \<Rightarrow> f x)"

subsection \<open>Coordinates (lines 49 to 56)\<close>

text \<open>\<^verbatim>\<open>float(row[k]) if row[k] else 0.0\<close>\<close>

definition coord :: "(string \<Rightarrow> 'f::zero option) \<Rightarrow> row \<Rightarrow> string \<Rightarrow> pyexc + 'f" where
  "coord pf r k =
     bind_exc (getitem r k) (\<lambda>v. if truthy v then py_float pf v else Inr 0)"

text \<open>\<^verbatim>\<open>lng_key = 'longitude ' if 'longitude ' in row else 'longitude'\<close>\<close>

definition lng_key :: "row \<Rightarrow> string" where
  "lng_key r = (if r ''longitude '' \<noteq> None then ''longitude '' else ''longitude'')"

text \<open>The body of the \<^verbatim>\<open>try\<close>.\<close>

definition try_coords :: "(string \<Rightarrow> 'f::zero option) \<Rightarrow> row \<Rightarrow> pyexc + 'f \<times> 'f" where
  "try_coords pf r =
     bind_exc (coord pf r ''latitude'') (\<lambda>lat.
     bind_exc (coord pf r (lng_key r)) (\<lambda>lng.
     Inr (lat, lng)))"

text \<open>
  The \<^verbatim>\<open>try\<close> with its handler \<^verbatim>\<open>except (ValueError, KeyError)\<close>, which sets both
  coordinates to \<^verbatim>\<open>0.0\<close>; any other exception goes on.
\<close>

definition coords :: "(string \<Rightarrow> 'f::zero option) \<Rightarrow> row \<Rightarrow> pyexc + 'f \<times> 'f" where
  "coords pf r =
     (case try_coords pf r of
        Inr p \<Rightarrow> Inr p
      | Inl (KeyError k) \<Rightarrow> Inr (0, 0)
      | Inl (ValueError s) \<Rightarrow> Inr (0, 0)
      | Inl e \<Rightarrow> Inl e)"

subsection \<open>One row (lines 44 to 71)\<close>

text \<open>
  The dictionary literal, its items evaluated in order. \<open>today i\<close> is what
  \<^verbatim>\<open>datetime.now().strftime("%Y-%m-%d")\<close> returns while row \<open>i\<close> is processed; it is
  only called when \<^verbatim>\<open>date posted\<close> is false.
\<close>

definition make_sighting ::
  "(nat \<Rightarrow> string) \<Rightarrow> nat \<Rightarrow> row \<Rightarrow> 'f \<Rightarrow> 'f \<Rightarrow> pyexc + 'f sighting" where
  "make_sighting today i r lat lng =
     bind_exc (getitem r ''datetime'') (\<lambda>v_datetime.
     bind_exc (getitem r ''city'') (\<lambda>v_city.
     bind_exc (getitem r ''state'') (\<lambda>v_state.
     bind_exc (getitem r ''country'') (\<lambda>v_country.
     bind_exc (getitem r ''shape'') (\<lambda>v_shape.
     bind_exc (getitem r ''duration (hours/min)'') (\<lambda>v_duration.
     bind_exc (getitem r ''comments'') (\<lambda>v_comments.
     bind_exc (getitem r ''date posted'') (\<lambda>v_posted.
     Inr \<lparr> dateTime = v_datetime,
           city = v_city,
           state = v_state,
           country = py_or v_country (PyStr ''Unknown''),
           shape = py_or v_shape (PyStr ''Unknown''),
           duration = py_or v_duration (PyStr ''Unknown''),
           summary = py_or v_comments (PyStr ''''),
           posted = (if truthy v_posted then v_posted else PyStr (today i)),
           latitude = lat,
           longitude = lng \<rparr>))))))))"

text \<open>
  The body of the loop after the test of the limit: \<open>Inr None\<close> is \<^verbatim>\<open>continue\<close>,
  \<open>Inr (Some s)\<close> is \<^verbatim>\<open>sightings.append(s)\<close>, \<open>Inl e\<close> an exception that leaves the loop.
  \<^verbatim>\<open>not row['datetime'] or not row['city']\<close> does not look at the city when the date is
  false.
\<close>

definition row_step ::
  "(string \<Rightarrow> 'f::zero option) \<Rightarrow> (nat \<Rightarrow> string) \<Rightarrow> nat \<Rightarrow> row \<Rightarrow> pyexc + 'f sighting option" where
  "row_step pf today i r =
     bind_exc (getitem r ''datetime'') (\<lambda>v_datetime.
       if \<not> truthy v_datetime then Inr None
       else bind_exc (getitem r ''city'') (\<lambda>v_city.
         if \<not> truthy v_city then Inr None
         else bind_exc (coords pf r) (\<lambda>(lat, lng).
              bind_exc (make_sighting today i r lat lng) (\<lambda>s.
              Inr (Some s)))))"

subsection \<open>The loop (lines 40 to 75)\<close>

text \<open>
  \<^verbatim>\<open>for i, row in enumerate(csv_reader)\<close>, from the index \<open>i\<close> on, with the list
  \<^verbatim>\<open>sightings\<close> built so far. \<open>limit\<close> is \<^verbatim>\<open>None\<close> or the integer of \<^verbatim>\<open>--limit\<close>.
\<close>

definition limit_reached :: "int option \<Rightarrow> nat \<Rightarrow> bool" where
  "limit_reached limit i = (case limit of None \<Rightarrow> False | Some n \<Rightarrow> n \<le> int i)"

fun process_rows ::
  "(string \<Rightarrow> 'f::zero option) \<Rightarrow> (nat \<Rightarrow> string) \<Rightarrow> int option \<Rightarrow> nat \<Rightarrow> row list \<Rightarrow>
   'f sighting list \<Rightarrow> pyexc + 'f sighting list" where
  "process_rows pf today limit i [] sightings = Inr sightings"
| "process_rows pf today limit i (r # rs) sightings =
     (if limit_reached limit i then Inr sightings
      else (case row_step pf today i r of
              Inl e \<Rightarrow> Inl e
            | Inr None \<Rightarrow> process_rows pf today limit (Suc i) rs sightings
            | Inr (Some s) \<Rightarrow> process_rows pf today limit (Suc i) rs (sightings @ [s])))"

subsection \<open>The whole function (lines 13 to 90)\<close>

text \<open>
  \<open>input\<close> is \<open>None\<close> when the input file cannot be opened or read, and the rows of the
  file otherwise; \<open>writable\<close> tells whether the output directory and file can be written.
  Every exception ends in \<^verbatim>\<open>sys.exit(1)\<close>. On success the function has written the
  sightings and returns their number.
\<close>

datatype 'a outcome = SystemExit int | Returned 'a

definition convert_csv_to_json ::
  "(string \<Rightarrow> 'f::zero option) \<Rightarrow> (nat \<Rightarrow> string) \<Rightarrow> row list option \<Rightarrow> bool \<Rightarrow> int option \<Rightarrow>
   ('f sighting list \<times> nat) outcome" where
  "convert_csv_to_json pf today input writable limit =
     (case bind_exc (case input of None \<Rightarrow> Inl OSError | Some rows \<Rightarrow> Inr rows) (\<lambda>rows.
           bind_exc (process_rows pf today limit 0 rows []) (\<lambda>sightings.
           if writable then Inr (sightings, length sightings) else Inl OSError)) of
        Inl e \<Rightarrow> SystemExit 1
      | Inr res \<Rightarrow> Returned res)"

subsection \<open>What the loop computes, row by row\<close>

text \<open>
  The columns that the loop reads outside the \<^verbatim>\<open>try\<close> of the coordinates, in the order in
  which it reads them.
\<close>

definition record_columns :: "string list" where
  "record_columns =
     [''datetime'', ''city'', ''state'', ''country'', ''shape'', ''duration (hours/min)'',
      ''comments'', ''date posted'']"

definition has_columns :: "row \<Rightarrow> bool" where
  "has_columns r = (\<forall>k \<in> set record_columns. r k \<noteq> None)"

text \<open>The cell of a column, \<^verbatim>\<open>None\<close> for a column that the row does not have.\<close>

definition cell :: "row \<Rightarrow> string \<Rightarrow> pyval" where
  "cell r k = (case r k of None \<Rightarrow> PyNone | Some v \<Rightarrow> v)"

text \<open>A valid row: \<^verbatim>\<open>datetime\<close> and \<^verbatim>\<open>city\<close> are both non-empty.\<close>

definition valid_row :: "row \<Rightarrow> bool" where
  "valid_row r = (truthy (cell r ''datetime'') \<and> truthy (cell r ''city''))"

text \<open>
  A row at which the loop raises \<^verbatim>\<open>KeyError\<close> outside the \<^verbatim>\<open>try\<close>: it has no \<^verbatim>\<open>datetime\<close>
  column; or its date is non-empty and it has no \<^verbatim>\<open>city\<close> column; or it is valid and
  lacks one of the columns of the dictionary literal.
\<close>

definition row_raises :: "row \<Rightarrow> bool" where
  "row_raises r =
     (r ''datetime'' = None \<or>
      (truthy (cell r ''datetime'') \<and>
        (r ''city'' = None \<or>
         (truthy (cell r ''city'') \<and> (\<exists>k \<in> set record_columns. r k = None)))))"

text \<open>The coordinates and the sighting of a row at which nothing is raised.\<close>

definition coords_of :: "(string \<Rightarrow> 'f::zero option) \<Rightarrow> row \<Rightarrow> 'f \<times> 'f" where
  "coords_of pf r = (case coords pf r of Inl e \<Rightarrow> (0, 0) | Inr p \<Rightarrow> p)"

definition sighting_of ::
  "(string \<Rightarrow> 'f::zero option) \<Rightarrow> (nat \<Rightarrow> string) \<Rightarrow> nat \<Rightarrow> row \<Rightarrow> 'f sighting" where
  "sighting_of pf today i r =
     \<lparr> dateTime = cell r ''datetime'',
       city = cell r ''city'',
       state = cell r ''state'',
       country = py_or (cell r ''country'') (PyStr ''Unknown''),
       shape = py_or (cell r ''shape'') (PyStr ''Unknown''),
       duration = py_or (cell r ''duration (hours/min)'') (PyStr ''Unknown''),
       summary = py_or (cell r ''comments'') (PyStr ''''),
       posted =
         (if truthy (cell r ''date posted'') then cell r ''date posted'' else PyStr (today i)),
       latitude = fst (coords_of pf r),
       longitude = snd (coords_of pf r) \<rparr>"

text \<open>
  The rows that the loop scans when it starts at index \<open>i\<close>: all of them without a limit,
  and those of index below \<open>n\<close> with the limit \<open>n\<close>.
\<close>

definition scan_from :: "int option \<Rightarrow> nat \<Rightarrow> row list \<Rightarrow> row list" where
  "scan_from limit i rows =
     (case limit of None \<Rightarrow> rows | Some n \<Rightarrow> take (nat (n - int i)) rows)"

text \<open>The valid rows among \<open>rows\<close>, each with its index, counted from \<open>i\<close>.\<close>

definition valid_rows :: "nat \<Rightarrow> row list \<Rightarrow> (nat \<times> row) list" where
  "valid_rows i rows = filter (\<lambda>(j, r). valid_row r) (enumerate i rows)"

subsection \<open>The specification's table of derived fields\<close>

text \<open>
  A value is empty when it is the empty string, or \<^verbatim>\<open>None\<close>. The table: \<^verbatim>\<open>country\<close>,
  \<^verbatim>\<open>shape\<close> and \<^verbatim>\<open>duration\<close> are the input value, or \<^verbatim>\<open>"Unknown"\<close> when it is empty;
  \<^verbatim>\<open>summary\<close> is \<^verbatim>\<open>comments\<close>, or the empty string; \<^verbatim>\<open>posted\<close> is \<^verbatim>\<open>date posted\<close>, or
  the current date when that is empty; \<^verbatim>\<open>dateTime\<close>, \<^verbatim>\<open>city\<close> and \<^verbatim>\<open>state\<close> are copied.
\<close>

definition is_empty :: "pyval \<Rightarrow> bool" where
  "is_empty v = (v = PyNone \<or> v = PyStr [])"

definition or_default :: "pyval \<Rightarrow> string \<Rightarrow> pyval" where
  "or_default v d = (if is_empty v then PyStr d else v)"

definition default_table :: "(nat \<Rightarrow> string) \<Rightarrow> nat \<Rightarrow> row \<Rightarrow> 'f sighting \<Rightarrow> bool" where
  "default_table today i r s =
     (r ''datetime'' = Some (dateTime s) \<and>
      r ''city'' = Some (city s) \<and>
      r ''state'' = Some (state s) \<and>
      country s = or_default (cell r ''country'') ''Unknown'' \<and>
      shape s = or_default (cell r ''shape'') ''Unknown'' \<and>
      duration s = or_default (cell r ''duration (hours/min)'') ''Unknown'' \<and>
      summary s = or_default (cell r ''comments'') [] \<and>
      posted s = or_default (cell r ''date posted'') (today i))"

text \<open>
  A coordinate column parses in a row when the row has it and its value is empty or a
  string that \<^verbatim>\<open>float\<close> accepts. The value of a coordinate column, by the table: the
  parsed float, \<^verbatim>\<open>0.0\<close> when the value is empty or does not parse (or the column is absent).
\<close>

definition coord_parses :: "(string \<Rightarrow> 'f option) \<Rightarrow> row \<Rightarrow> string \<Rightarrow> bool" where
  "coord_parses pf r k =
     (case r k of
        None \<Rightarrow> False
      | Some PyNone \<Rightarrow> True
      | Some (PyStr s) \<Rightarrow> s = [] \<or> pf s \<noteq> None)"

definition coord_value :: "(string \<Rightarrow> 'f::zero option) \<Rightarrow> row \<Rightarrow> string \<Rightarrow> 'f" where
  "coord_value pf r k =
     (case r k of
        Some (PyStr s) \<Rightarrow> (if s = [] then 0 else (case pf s of None \<Rightarrow> 0 | Some x \<Rightarrow> x))
      | _ \<Rightarrow> 0)"

subsection \<open>Renaming the longitude column\<close>

text \<open>The column \<^verbatim>\<open>longitude\<close> gets the name \<^verbatim>\<open>longitude \<close> (with a space), its values stay.\<close>

definition rename_longitude :: "row \<Rightarrow> row" where
  "rename_longitude r = (r(''longitude'' := None))(''longitude '' := r ''longitude'')"

subsection \<open>Sample data\<close>

text \<open>
  A parser of plain decimal literals (an optional sign, digits, an optional point and
  digits) for the examples. On such a literal \<^verbatim>\<open>float\<close> returns the double nearest to the
  value computed here; \<^verbatim>\<open>float\<close> accepts more strings than this parser (exponents,
  surrounding blanks, \<^verbatim>\<open>inf\<close>, \<^verbatim>\<open>nan\<close>), none of which occurs in the examples. The general
  theorems hold for every parser.
\<close>

definition digit_of :: "char \<Rightarrow> nat option" where
  "digit_of c = (if c \<in> set ''0123456789'' then Some (of_char c - 48) else None)"

fun digits_val :: "nat \<Rightarrow> string \<Rightarrow> nat option" where
  "digits_val acc [] = Some acc"
| "digits_val acc (c # cs) =
     (case digit_of c of None \<Rightarrow> None | Some d \<Rightarrow> digits_val (10 * acc + d) cs)"

definition unsigned_decimal :: "string \<Rightarrow> real option" where
  "unsigned_decimal s =
     (let ip = takeWhile (\<lambda>c. c \<noteq> CHR ''.'') s;
          fp = drop 1 (dropWhile (\<lambda>c. c \<noteq> CHR ''.'') s)
      in if ip = [] \<and> fp = [] then None
         else (case digits_val 0 ip of
                 None \<Rightarrow> None
               | Some a \<Rightarrow>
                   (case digits_val 0 fp of
                      None \<Rightarrow> None
                    | Some b \<Rightarrow> Some (real a + real b / 10 ^ length fp))))"

definition float_decimal :: "string \<Rightarrow> real option" where
  "float_decimal s =
     (case s of
        [] \<Rightarrow> None
      | c # t \<Rightarrow>
          if c = CHR ''-'' then map_option uminus (unsigned_decimal t)
          else if c = CHR ''+'' then unsigned_decimal t
          else unsigned_decimal s)"

definition sample_today :: "nat \<Rightarrow> string" where
  "sample_today i = ''2026-11-06''"

text \<open>A clock that passes midnight after the first row.\<close>

definition another_today :: "nat \<Rightarrow> string" where
  "another_today i = (if i = 0 then ''2026-11-06'' else ''2026-11-07'')"

text \<open>The row of the specification's example.\<close>

definition row_dayton :: row where
  "row_dayton = map_of
     [(''datetime'', PyStr ''1/1/2020 20:00''), (''city'', PyStr ''dayton''),
      (''state'', PyStr ''oh''), (''country'', PyStr ''us''), (''shape'', PyStr ''circle''),
      (''duration (hours/min)'', PyStr ''5 minutes''), (''comments'', PyStr ''bright light''),
      (''date posted'', PyStr ''1/2/2020''), (''latitude'', PyStr ''39.75''),
      (''longitude'', PyStr ''-84.19'')]"

text \<open>A row with its optional cells empty, and a row without a city.\<close>

definition row_sparse :: row where
  "row_sparse = map_of
     [(''datetime'', PyStr ''6/30/1947 14:00''), (''city'', PyStr ''roswell''),
      (''state'', PyStr ''''), (''country'', PyStr ''''), (''shape'', PyStr ''''),
      (''duration (hours/min)'', PyStr ''''), (''comments'', PyStr ''''),
      (''date posted'', PyStr ''''), (''latitude'', PyStr ''''), (''longitude'', PyStr '''')]"

definition row_no_city :: row where
  "row_no_city = row_dayton(''city'' \<mapsto> PyStr '''')"

text \<open>Rows whose coordinates are in the way.\<close>

definition row_bad_latitude :: row where
  "row_bad_latitude = row_dayton(''latitude'' \<mapsto> PyStr ''abc'')"

definition row_without_longitude :: row where
  "row_without_longitude = row_dayton(''longitude'' := None)"

definition row_without_state :: row where
  "row_without_state = row_dayton(''state'' := None)"

section \<open>Properties\<close>

subsection \<open>The loop, row by row\<close>

lemma coords_total: "\<exists>p. coords pf r = Inr p"
  by (auto simp: coords_def try_coords_def coord_def bind_exc_def getitem_def py_float_def truthy_def
      split: option.splits sum.splits pyval.splits pyexc.splits)

lemma coords_eq: "coords pf r = Inr (coords_of pf r)"
  using coords_total [of pf r] by (auto simp: coords_of_def)

lemma has_columns_no_raise: "has_columns r \<Longrightarrow> \<not> row_raises r"
  by (auto simp: has_columns_def row_raises_def record_columns_def)

lemma row_step_ok:
  assumes "\<not> row_raises r"
  shows "row_step pf today i r =
         Inr (if valid_row r then Some (sighting_of pf today i r) else None)"
  using assms
  by (auto simp: row_raises_def record_columns_def row_step_def make_sighting_def bind_exc_def
      getitem_def coords_eq valid_row_def cell_def sighting_of_def split: prod.splits)

lemma row_step_raises:
  assumes "row_raises r"
  shows "\<exists>k. row_step pf today i r = Inl (KeyError k)"
  using assms
  by (auto simp: row_raises_def record_columns_def row_step_def make_sighting_def bind_exc_def
      getitem_def coords_eq cell_def split: prod.splits option.splits)

lemma scan_from_Cons:
  assumes "\<not> limit_reached limit i"
  shows "scan_from limit i (r # rs) = r # scan_from limit (Suc i) rs"
proof (cases limit)
  case None
  then show ?thesis by (simp add: scan_from_def)
next
  case (Some n)
  with assms have "int i < n" by (simp add: limit_reached_def)
  then have "nat (n - int i) = Suc (nat (n - int (Suc i)))" by linarith
  with Some show ?thesis by (simp add: scan_from_def)
qed

lemma scan_from_reached:
  assumes "limit_reached limit i"
  shows "scan_from limit i rows = []"
  using assms by (auto simp: limit_reached_def scan_from_def split: option.splits)

lemma process_rows_ok:
  assumes "\<forall>r \<in> set (scan_from limit i rows). \<not> row_raises r"
  shows "process_rows pf today limit i rows acc =
         Inr (acc @ map (\<lambda>(j, r). sighting_of pf today j r)
                      (valid_rows i (scan_from limit i rows)))"
  using assms
proof (induction rows arbitrary: i acc)
  case Nil
  then show ?case by (simp add: scan_from_def valid_rows_def split: option.splits)
next
  case (Cons r rs)
  show ?case
  proof (cases "limit_reached limit i")
    case True
    then show ?thesis by (simp add: scan_from_reached valid_rows_def)
  next
    case False
    then have sc: "scan_from limit i (r # rs) = r # scan_from limit (Suc i) rs"
      by (rule scan_from_Cons)
    with Cons.prems have hr: "\<not> row_raises r"
      and hrs: "\<forall>r \<in> set (scan_from limit (Suc i) rs). \<not> row_raises r"
      by auto
    show ?thesis
      using False Cons.IH [OF hrs] by (simp add: sc row_step_ok [OF hr] valid_rows_def)
  qed
qed

lemma process_rows_raises:
  assumes "\<exists>r \<in> set (scan_from limit i rows). row_raises r"
  shows "\<exists>k. process_rows pf today limit i rows acc = Inl (KeyError k)"
  using assms
proof (induction rows arbitrary: i acc)
  case Nil
  then show ?case by (simp add: scan_from_def split: option.splits)
next
  case (Cons r rs)
  show ?case
  proof (cases "limit_reached limit i")
    case True
    with Cons.prems show ?thesis by (simp add: scan_from_reached)
  next
    case False
    then have sc: "scan_from limit i (r # rs) = r # scan_from limit (Suc i) rs"
      by (rule scan_from_Cons)
    show ?thesis
    proof (cases "row_raises r")
      case True
      then obtain k where "row_step pf today i r = Inl (KeyError k)"
        using row_step_raises by blast
      with False show ?thesis by simp
    next
      case nr: False
      with Cons.prems sc have "\<exists>r \<in> set (scan_from limit (Suc i) rs). row_raises r"
        by auto
      from Cons.IH [OF this] False show ?thesis
        by (simp add: row_step_ok [OF nr])
    qed
  qed
qed

lemma process_rows_Inr:
  assumes "process_rows pf today limit i rows acc = Inr out"
  shows "out = acc @ map (\<lambda>(j, r). sighting_of pf today j r)
                      (valid_rows i (scan_from limit i rows))"
proof -
  have "\<forall>r \<in> set (scan_from limit i rows). \<not> row_raises r"
  proof (rule ccontr)
    assume "\<not> (\<forall>r \<in> set (scan_from limit i rows). \<not> row_raises r)"
    then have "\<exists>r \<in> set (scan_from limit i rows). row_raises r" by blast
    from process_rows_raises [OF this, of pf today acc] assms show False by auto
  qed
  from process_rows_ok [OF this, of pf today acc] assms show ?thesis by simp
qed

lemma scan_from_None: "scan_from None i rows = rows"
  by (simp add: scan_from_def)

lemma scan_from_Some_0: "scan_from (Some n) 0 rows = take (nat n) rows"
  by (simp add: scan_from_def)

lemma map_snd_valid_rows: "map snd (valid_rows i rows) = filter valid_row rows"
  by (induction rows arbitrary: i) (simp_all add: valid_rows_def)

lemma length_valid_rows: "length (valid_rows i rows) = length (filter valid_row rows)"
  using map_snd_valid_rows [of i rows] by (metis length_map)

subsection \<open>Evaluating the examples\<close>

lemmas sample_defs =
  row_dayton_def row_sparse_def row_no_city_def row_bad_latitude_def row_without_longitude_def
  row_without_state_def sample_today_def

lemmas eval_defs =
  has_columns_def record_columns_def valid_row_def valid_rows_def cell_def truthy_def
  sighting_of_def coords_of_def coords_def try_coords_def coord_def lng_key_def getitem_def
  bind_exc_def py_float_def py_or_def float_decimal_def unsigned_decimal_def digit_of_def
  enumerate_eq_zip

subsection \<open>One record for each valid row\<close>

text \<open>
  C1. When every row has the columns that the loop reads, a run without a limit returns
  normally, and its sightings are the sightings of the valid rows (the rows whose
  \<^verbatim>\<open>datetime\<close> and \<^verbatim>\<open>city\<close> are both non-empty), one for each, in the order of the rows;
  a row whose date or city is empty gives no sighting.
\<close>

theorem C1_one_record_per_valid_row:
  assumes "\<forall>r \<in> set rows. has_columns r"
  shows "process_rows pf today None 0 rows [] =
         Inr (map (\<lambda>(i, r). sighting_of pf today i r) (valid_rows 0 rows))"
proof -
  from assms have "\<forall>r \<in> set (scan_from None 0 rows). \<not> row_raises r"
    by (simp add: scan_from_None has_columns_no_raise)
  from process_rows_ok [OF this, of pf today "[]"] show ?thesis
    by (simp add: scan_from_None)
qed

theorem C1_one_record_per_valid_row_witness:
  "has_columns row_dayton \<and> has_columns row_no_city \<and> has_columns row_sparse \<and>
   process_rows float_decimal sample_today None 0 [row_dayton, row_no_city, row_sparse] [] =
   Inr [\<lparr> dateTime = PyStr ''1/1/2020 20:00'', city = PyStr ''dayton'', state = PyStr ''oh'',
          country = PyStr ''us'', shape = PyStr ''circle'', duration = PyStr ''5 minutes'',
          summary = PyStr ''bright light'', posted = PyStr ''1/2/2020'',
          latitude = 3975 / 100, longitude = - 8419 / 100 \<rparr>,
        \<lparr> dateTime = PyStr ''6/30/1947 14:00'', city = PyStr ''roswell'', state = PyStr '''',
          country = PyStr ''Unknown'', shape = PyStr ''Unknown'', duration = PyStr ''Unknown'',
          summary = PyStr '''', posted = PyStr ''2026-11-06'',
          latitude = 0, longitude = 0 \<rparr>]"
proof -
  have h: "\<forall>r \<in> set [row_dayton, row_no_city, row_sparse]. has_columns r"
    by (simp add: sample_defs has_columns_def record_columns_def)
  show ?thesis
    using h C1_one_record_per_valid_row [OF h, of float_decimal sample_today]
    by (simp add: sample_defs eval_defs)
qed

subsection \<open>The limit counts rows, not records\<close>




subsection \<open>A file without a longitude column\<close>

lemma convert_eq:
  "convert_csv_to_json pf today (Some rows) True limit =
     (case process_rows pf today limit 0 rows [] of
        Inl e \<Rightarrow> SystemExit 1
      | Inr out \<Rightarrow> Returned (out, length out))"
  by (simp add: convert_csv_to_json_def bind_exc_def split: sum.splits)

lemma coords_no_longitude:
  assumes "r ''longitude'' = None" and "r ''longitude '' = None"
  shows "coords_of pf r = (0, 0)"
  using assms
  by (auto simp: coords_of_def coords_def try_coords_def coord_def lng_key_def bind_exc_def
      getitem_def py_float_def split: option.splits sum.splits pyval.splits pyexc.splits)

lemma valid_rows_set:
  assumes "(j, r) \<in> set (valid_rows i rows)"
  shows "r \<in> set rows \<and> valid_row r"
  using assms by (auto simp: valid_rows_def in_set_enumerate_eq)

text \<open>
  C3 (as amended). When no row has a column \<^verbatim>\<open>longitude\<close> or \<^verbatim>\<open>longitude \<close> (and every
  row has the other columns that the loop reads), the run does not fail: the handler of
  the coordinates catches the \<^verbatim>\<open>KeyError\<close>, the function returns one sighting for each
  valid row, and both coordinates of every sighting are \<^verbatim>\<open>0.0\<close>.
\<close>

theorem C3_missing_longitude_not_fatal:
  assumes "\<forall>r \<in> set rows. has_columns r \<and> r ''longitude'' = None \<and> r ''longitude '' = None"
  shows "\<exists>out. convert_csv_to_json pf today (Some rows) True None = Returned (out, length out) \<and>
           length out = length (filter valid_row rows) \<and>
           (\<forall>s \<in> set out. latitude s = 0 \<and> longitude s = 0)"
proof -
  let ?out = "map (\<lambda>(i, r). sighting_of pf today i r) (valid_rows 0 rows)"
  from assms have "\<forall>r \<in> set (scan_from None 0 rows). \<not> row_raises r"
    by (simp add: scan_from_None has_columns_no_raise)
  from process_rows_ok [OF this, of pf today "[]"]
  have run: "process_rows pf today None 0 rows [] = Inr ?out"
    by (simp add: scan_from_None)
  have "\<forall>s \<in> set ?out. latitude s = 0 \<and> longitude s = 0"
  proof
    fix s assume "s \<in> set ?out"
    then obtain i r where ir: "(i, r) \<in> set (valid_rows 0 rows)"
      and s: "s = sighting_of pf today i r"
      by auto
    from ir have "r \<in> set rows" by (simp add: valid_rows_set)
    with assms have "coords_of pf r = (0, 0)" by (simp add: coords_no_longitude)
    with s show "latitude s = 0 \<and> longitude s = 0" by (simp add: sighting_of_def)
  qed
  with run show ?thesis
    by (simp add: convert_eq length_valid_rows)
qed

theorem C3_missing_longitude_not_fatal_witness:
  "has_columns row_without_longitude \<and> row_without_longitude ''longitude'' = None \<and>
   row_without_longitude ''longitude '' = None \<and>
   (\<exists>out. convert_csv_to_json float_decimal sample_today (Some [row_without_longitude]) True None
            = Returned (out, length out) \<and>
          length out = 1 \<and> list_all (\<lambda>s. latitude s = 0 \<and> longitude s = 0) out)"
proof -
  have h: "\<forall>r \<in> set [row_without_longitude].
             has_columns r \<and> r ''longitude'' = None \<and> r ''longitude '' = None"
    by (simp add: sample_defs has_columns_def record_columns_def)
  have v: "valid_row row_without_longitude"
    by (simp add: sample_defs eval_defs)
  show ?thesis
    using h v C3_missing_longitude_not_fatal [OF h, of float_decimal sample_today]
    by (simp add: list_all_iff)
qed

text \<open>
  The claim as it was stated fails: for a file with one valid row and no longitude column
  the function returns, with one sighting whose coordinates are the fallback values.
\<close>

theorem C3_missing_longitude_counterexample:
  "row_without_longitude ''longitude'' = None \<and> row_without_longitude ''longitude '' = None \<and>
   convert_csv_to_json float_decimal sample_today (Some [row_without_longitude]) True None =
   Returned ([\<lparr> dateTime = PyStr ''1/1/2020 20:00'', city = PyStr ''dayton'', state = PyStr ''oh'',
          country = PyStr ''us'', shape = PyStr ''circle'', duration = PyStr ''5 minutes'',
          summary = PyStr ''bright light'', posted = PyStr ''1/2/2020'',
          latitude = 0, longitude = 0 \<rparr>], 1)"
  by (simp add: convert_eq sample_defs eval_defs limit_reached_def row_step_def make_sighting_def)

subsection \<open>The longitude of a sighting\<close>

lemma longitude_coords_of:
  "snd (coords_of pf r) =
     (if coord_parses pf r ''latitude'' then coord_value pf r (lng_key r) else 0)"
  by (auto simp: coords_of_def coords_def try_coords_def coord_def bind_exc_def
      getitem_def py_float_def truthy_def coord_parses_def coord_value_def
      split: option.splits sum.splits pyval.splits pyexc.splits)

lemma list_all2_map_same:
  assumes "\<And>x. x \<in> set xs \<Longrightarrow> P x (f x)"
  shows "list_all2 P xs (map f xs)"
  using assms by (simp add: list_all2_conv_all_nth)

text \<open>
  C4 (as amended). For every emitted row whose latitude column is present with a value that
  is empty or parses, the \<^verbatim>\<open>longitude\<close> of the sighting is the table's value of the detected
  longitude column: the parsed float, \<^verbatim>\<open>0.0\<close> when that value is empty or does not parse.
  When the latitude column is absent or its value does not parse, the handler has set both
  coordinates to \<^verbatim>\<open>0.0\<close>, so the \<^verbatim>\<open>longitude\<close> is \<^verbatim>\<open>0.0\<close> whatever the longitude column holds.
\<close>

theorem C4_longitude_value:
  assumes "process_rows pf today limit 0 rows [] = Inr out"
  shows "list_all2
           (\<lambda>(i, r) s. longitude s =
              (if coord_parses pf r ''latitude'' then coord_value pf r (lng_key r) else 0))
           (valid_rows 0 (scan_from limit 0 rows)) out"
proof -
  from process_rows_Inr [OF assms]
  have out: "out = map (\<lambda>(i, r). sighting_of pf today i r)
                     (valid_rows 0 (scan_from limit 0 rows))"
    by simp
  show ?thesis
    unfolding out
    by (rule list_all2_map_same) (auto simp: sighting_of_def longitude_coords_of)
qed

theorem C4_longitude_value_witness:
  "process_rows float_decimal sample_today None 0 [row_dayton, row_bad_latitude, row_sparse] [] =
     Inr [sighting_of float_decimal sample_today 0 row_dayton,
          sighting_of float_decimal sample_today 1 row_bad_latitude,
          sighting_of float_decimal sample_today 2 row_sparse] \<and>
   map longitude [sighting_of float_decimal sample_today 0 row_dayton,
          sighting_of float_decimal sample_today 1 row_bad_latitude,
          sighting_of float_decimal sample_today 2 row_sparse] = [- 8419 / 100, 0, 0] \<and>
   coord_parses float_decimal row_dayton ''latitude'' \<and>
   coord_value float_decimal row_dayton (lng_key row_dayton) = - 8419 / 100 \<and>
   \<not> coord_parses float_decimal row_bad_latitude ''latitude'' \<and>
   coord_parses float_decimal row_sparse ''latitude'' \<and>
   coord_value float_decimal row_sparse (lng_key row_sparse) = 0"
proof -
  have h: "process_rows float_decimal sample_today None 0
             [row_dayton, row_bad_latitude, row_sparse] [] =
     Inr [sighting_of float_decimal sample_today 0 row_dayton,
          sighting_of float_decimal sample_today 1 row_bad_latitude,
          sighting_of float_decimal sample_today 2 row_sparse]"
    by (simp add: sample_defs eval_defs limit_reached_def row_step_def make_sighting_def)
  have v: "valid_rows 0 (scan_from None 0 [row_dayton, row_bad_latitude, row_sparse]) =
           [(0, row_dayton), (1, row_bad_latitude), (2, row_sparse)]"
    by (simp add: scan_from_None sample_defs valid_rows_def valid_row_def cell_def truthy_def
        enumerate_eq_zip)
  have p: "coord_parses float_decimal row_dayton ''latitude'' \<and>
   coord_value float_decimal row_dayton (lng_key row_dayton) = - 8419 / 100 \<and>
   \<not> coord_parses float_decimal row_bad_latitude ''latitude'' \<and>
   coord_parses float_decimal row_sparse ''latitude'' \<and>
   coord_value float_decimal row_sparse (lng_key row_sparse) = 0"
    by (simp add: sample_defs coord_parses_def coord_value_def lng_key_def float_decimal_def
        unsigned_decimal_def digit_of_def)
  show ?thesis
    using h p C4_longitude_value [OF h]
    by (simp add: v)
qed

text \<open>
  The claim as it was stated fails: the row has the latitude \<^verbatim>\<open>abc\<close>, which does not parse,
  and the longitude \<^verbatim>\<open>-84.19\<close>, which does; the sighting is emitted with the longitude 0.
\<close>

theorem C4_longitude_counterexample:
  "row_bad_latitude ''latitude'' = Some (PyStr ''abc'') \<and> float_decimal ''abc'' = None \<and>
   row_bad_latitude (lng_key row_bad_latitude) = Some (PyStr ''-84.19'') \<and>
   float_decimal ''-84.19'' = Some (- 8419 / 100) \<and>
   process_rows float_decimal sample_today None 0 [row_bad_latitude] [] =
   Inr [\<lparr> dateTime = PyStr ''1/1/2020 20:00'', city = PyStr ''dayton'', state = PyStr ''oh'',
          country = PyStr ''us'', shape = PyStr ''circle'', duration = PyStr ''5 minutes'',
          summary = PyStr ''bright light'', posted = PyStr ''1/2/2020'',
          latitude = 0, longitude = 0 \<rparr>]"
  by (simp add: sample_defs eval_defs limit_reached_def row_step_def make_sighting_def)

subsection \<open>The derived fields\<close>

lemma or_default_truthy: "or_default v d = (if truthy v then v else PyStr d)"
  by (cases v) (auto simp: or_default_def is_empty_def truthy_def)

lemma sighting_of_table:
  assumes "\<not> row_raises r" and "valid_row r"
  shows "default_table today i r (sighting_of pf today i r)"
  using assms
  by (auto simp: default_table_def sighting_of_def py_or_def or_default_truthy
      row_raises_def valid_row_def record_columns_def cell_def)

lemma scanned_no_raise:
  assumes "process_rows pf today limit i rows acc = Inr out"
  shows "\<forall>r \<in> set (scan_from limit i rows). \<not> row_raises r"
proof (rule ccontr)
  assume "\<not> (\<forall>r \<in> set (scan_from limit i rows). \<not> row_raises r)"
  then have "\<exists>r \<in> set (scan_from limit i rows). row_raises r" by blast
  from process_rows_raises [OF this, of pf today acc] assms show False by auto
qed

text \<open>
  C5. Whenever the loop returns, its sightings are, in order, those of the valid rows that
  it scanned, and each has the fields of the table: \<^verbatim>\<open>country\<close>, \<^verbatim>\<open>shape\<close> and
  \<^verbatim>\<open>duration\<close> are the row's values, or \<^verbatim>\<open>"Unknown"\<close> for an empty value; \<^verbatim>\<open>summary\<close> is
  \<^verbatim>\<open>comments\<close>, or the empty string; \<^verbatim>\<open>posted\<close> is \<^verbatim>\<open>date posted\<close>, or the current date
  for an empty value; \<^verbatim>\<open>state\<close> (like \<^verbatim>\<open>dateTime\<close> and \<^verbatim>\<open>city\<close>) is the row's value as it
  is, empty or not.
\<close>

theorem C5_default_table:
  assumes "process_rows pf today limit 0 rows [] = Inr out"
  shows "list_all2 (\<lambda>(i, r) s. default_table today i r s)
           (valid_rows 0 (scan_from limit 0 rows)) out"
proof -
  from process_rows_Inr [OF assms]
  have out: "out = map (\<lambda>(i, r). sighting_of pf today i r)
                     (valid_rows 0 (scan_from limit 0 rows))"
    by simp
  have "\<And>x. x \<in> set (valid_rows 0 (scan_from limit 0 rows)) \<Longrightarrow>
          (case x of (i, r) \<Rightarrow> \<lambda>s. default_table today i r s)
            (case x of (i, r) \<Rightarrow> sighting_of pf today i r)"
  proof -
    fix x assume x: "x \<in> set (valid_rows 0 (scan_from limit 0 rows))"
    obtain i r where ir: "x = (i, r)" by (cases x)
    with x valid_rows_set have "r \<in> set (scan_from limit 0 rows)" and v: "valid_row r"
      by blast+
    with scanned_no_raise [OF assms] have "\<not> row_raises r" by blast
    from sighting_of_table [OF this v] ir
    show "(case x of (i, r) \<Rightarrow> \<lambda>s. default_table today i r s)
            (case x of (i, r) \<Rightarrow> sighting_of pf today i r)"
      by simp
  qed
  then show ?thesis
    unfolding out by (rule list_all2_map_same)
qed

theorem C5_default_table_witness:
  "process_rows float_decimal sample_today None 0 [row_dayton, row_no_city, row_sparse] [] =
     Inr [sighting_of float_decimal sample_today 0 row_dayton,
          sighting_of float_decimal sample_today 2 row_sparse] \<and>
   default_table sample_today 0 row_dayton (sighting_of float_decimal sample_today 0 row_dayton) \<and>
   default_table sample_today 2 row_sparse (sighting_of float_decimal sample_today 2 row_sparse) \<and>
   country (sighting_of float_decimal sample_today 2 row_sparse) = PyStr ''Unknown'' \<and>
   posted (sighting_of float_decimal sample_today 2 row_sparse) = PyStr ''2026-11-06'' \<and>
   state (sighting_of float_decimal sample_today 2 row_sparse) = PyStr ''''"
proof -
  have h: "process_rows float_decimal sample_today None 0 [row_dayton, row_no_city, row_sparse] [] =
     Inr [sighting_of float_decimal sample_today 0 row_dayton,
          sighting_of float_decimal sample_today 2 row_sparse]"
    by (simp add: sample_defs eval_defs limit_reached_def row_step_def make_sighting_def)
  have v: "valid_rows 0 (scan_from None 0 [row_dayton, row_no_city, row_sparse]) =
           [(0, row_dayton), (2, row_sparse)]"
    by (simp add: scan_from_None sample_defs valid_rows_def valid_row_def cell_def truthy_def
        enumerate_eq_zip)
  have f: "country (sighting_of float_decimal sample_today 2 row_sparse) = PyStr ''Unknown'' \<and>
   posted (sighting_of float_decimal sample_today 2 row_sparse) = PyStr ''2026-11-06'' \<and>
   state (sighting_of float_decimal sample_today 2 row_sparse) = PyStr ''''"
    by (simp add: sample_defs sighting_of_def cell_def py_or_def truthy_def)
  show ?thesis
    using h f C5_default_table [OF h]
    by (simp add: v)
qed

subsection \<open>A latitude that does not parse\<close>

lemma latitude_unparseable:
  assumes "r ''latitude'' = Some (PyStr s)" and "s \<noteq> []" and "pf s = None"
  shows "coords_of pf r = (0, 0)"
  using assms
  by (simp add: coords_of_def coords_def try_coords_def coord_def bind_exc_def getitem_def
      py_float_def truthy_def)

lemma valid_rows_append:
  "valid_rows i (xs @ ys) = valid_rows i xs @ valid_rows (i + length xs) ys"
  by (simp add: valid_rows_def enumerate_append_eq)

text \<open>
  C6. In a file whose rows have the columns that the loop reads, take a valid row, of
  index \<open>i\<close>, whose latitude is a non-empty string that does not parse. A run without a
  limit returns normally and the sighting of that row is in its result, at the position
  that counts the valid rows before it, with the latitude \<^verbatim>\<open>0.0\<close>.
\<close>

theorem C6_unparseable_latitude_emitted:
  assumes cols: "\<forall>r \<in> set rows. has_columns r"
    and i: "i < length rows"
    and valid: "valid_row (rows ! i)"
    and lat: "(rows ! i) ''latitude'' = Some (PyStr s)" "s \<noteq> []" "pf s = None"
  shows "\<exists>out. process_rows pf today None 0 rows [] = Inr out \<and>
           length (filter valid_row (take i rows)) < length out \<and>
           out ! length (filter valid_row (take i rows)) = sighting_of pf today i (rows ! i) \<and>
           latitude (sighting_of pf today i (rows ! i)) = 0"
proof -
  let ?f = "\<lambda>(j, r). sighting_of pf today j r"
  let ?k = "length (filter valid_row (take i rows))"
  from cols have "\<forall>r \<in> set (scan_from None 0 rows). \<not> row_raises r"
    by (simp add: scan_from_None has_columns_no_raise)
  from process_rows_ok [OF this, of pf today "[]"]
  have run: "process_rows pf today None 0 rows [] = Inr (map ?f (valid_rows 0 rows))"
    by (simp add: scan_from_None)
  from i have split: "rows = take i rows @ rows ! i # drop (Suc i) rows"
    by (simp add: id_take_nth_drop)
  have "valid_rows 0 rows = valid_rows 0 (take i rows @ rows ! i # drop (Suc i) rows)"
    using split by simp
  also have "\<dots> = valid_rows 0 (take i rows) @ valid_rows i (rows ! i # drop (Suc i) rows)"
    using i by (simp add: valid_rows_append min_absorb2)
  also have "valid_rows i (rows ! i # drop (Suc i) rows) =
             (i, rows ! i) # valid_rows (Suc i) (drop (Suc i) rows)"
    using valid by (simp add: valid_rows_def)
  finally have vr: "valid_rows 0 rows =
      valid_rows 0 (take i rows) @ (i, rows ! i) # valid_rows (Suc i) (drop (Suc i) rows)" .
  have k: "length (valid_rows 0 (take i rows)) = ?k" by (rule length_valid_rows)
  have lt: "?k < length (map ?f (valid_rows 0 rows))"
    by (subst vr) (simp add: k)
  have nth: "map ?f (valid_rows 0 rows) ! ?k = sighting_of pf today i (rows ! i)"
    by (subst vr) (simp add: nth_append k [symmetric])
  have "latitude (sighting_of pf today i (rows ! i)) = 0"
    by (simp add: sighting_of_def
        latitude_unparseable [where r = "rows ! i" and pf = pf and s = s, OF lat])
  with run lt nth show ?thesis by simp
qed

theorem C6_unparseable_latitude_emitted_witness:
  "has_columns row_no_city \<and> has_columns row_dayton \<and> has_columns row_bad_latitude \<and>
   (2::nat) < length [row_no_city, row_dayton, row_bad_latitude] \<and>
   valid_row ([row_no_city, row_dayton, row_bad_latitude] ! 2) \<and>
   ([row_no_city, row_dayton, row_bad_latitude] ! 2) ''latitude'' = Some (PyStr ''abc'') \<and>
   ''abc'' \<noteq> [] \<and> float_decimal ''abc'' = None \<and>
   (\<exists>out. process_rows float_decimal sample_today None 0
             [row_no_city, row_dayton, row_bad_latitude] [] = Inr out \<and>
          1 < length out \<and>
          out ! 1 = sighting_of float_decimal sample_today 2 row_bad_latitude \<and>
          latitude (sighting_of float_decimal sample_today 2 row_bad_latitude) = 0)"
proof -
  have c: "\<forall>r \<in> set [row_no_city, row_dayton, row_bad_latitude]. has_columns r"
    by (simp add: sample_defs has_columns_def record_columns_def)
  have i: "(2::nat) < length [row_no_city, row_dayton, row_bad_latitude]" by simp
  have v: "valid_row ([row_no_city, row_dayton, row_bad_latitude] ! 2)"
    by (simp add: sample_defs valid_row_def cell_def truthy_def)
  have l: "([row_no_city, row_dayton, row_bad_latitude] ! 2) ''latitude'' = Some (PyStr ''abc'')"
    by (simp add: sample_defs)
  have n: "''abc'' \<noteq> []" by simp
  have p: "float_decimal ''abc'' = None"
    by (simp add: float_decimal_def unsigned_decimal_def digit_of_def)
  have k: "length (filter valid_row (take 2 [row_no_city, row_dayton, row_bad_latitude])) = 1"
    by (simp add: sample_defs valid_row_def cell_def truthy_def take_Suc_conv_app_nth
        numeral_2_eq_2)
  show ?thesis
    using c i v l n p
      C6_unparseable_latitude_emitted
        [where pf = float_decimal and s = "''abc''" and today = sample_today
          and rows = "[row_no_city, row_dayton, row_bad_latitude]" and i = 2,
          OF c i v l n p, unfolded k]
    by (simp del: process_rows.simps)
qed

subsection \<open>The name of the longitude column\<close>

lemma coords_rename:
  assumes "r ''longitude '' = None"
  shows "coords pf (rename_longitude r) = coords pf r"
  using assms
  by (auto simp: rename_longitude_def coords_def try_coords_def coord_def lng_key_def
      bind_exc_def getitem_def split: option.splits sum.splits)

lemma make_sighting_rename:
  "make_sighting today i (rename_longitude r) lat lng = make_sighting today i r lat lng"
  by (simp add: rename_longitude_def make_sighting_def getitem_def)

lemma row_step_rename:
  assumes "r ''longitude '' = None"
  shows "row_step pf today i (rename_longitude r) = row_step pf today i r"
proof -
  have "getitem (rename_longitude r) ''datetime'' = getitem r ''datetime''"
    and "getitem (rename_longitude r) ''city'' = getitem r ''city''"
    by (simp_all add: rename_longitude_def getitem_def)
  with assms show ?thesis
    by (simp add: row_step_def coords_rename make_sighting_rename cong: if_cong)
qed

lemma process_rows_rename:
  assumes "\<forall>r \<in> set rows. r ''longitude '' = None"
  shows "process_rows pf today limit i (map rename_longitude rows) acc =
         process_rows pf today limit i rows acc"
  using assms
proof (induction rows arbitrary: i acc)
  case Nil
  show ?case by simp
next
  case (Cons r rs)
  then have "row_step pf today i (rename_longitude r) = row_step pf today i r"
    by (simp add: row_step_rename)
  with Cons show ?case by (simp split: sum.splits option.splits)
qed

text \<open>
  C7. Take a file whose longitude column, if it has one, is named \<^verbatim>\<open>longitude\<close> (no row
  has a column \<^verbatim>\<open>longitude \<close> yet). Giving that column the name \<^verbatim>\<open>longitude \<close>, its values
  unchanged, does not change the result of the loop: the same sightings with the same
  coordinates, or the same failure.
\<close>

theorem C7_longitude_column_name:
  assumes "\<forall>r \<in> set rows. r ''longitude '' = None"
  shows "process_rows pf today limit 0 (map rename_longitude rows) [] =
         process_rows pf today limit 0 rows []"
  using assms by (rule process_rows_rename)

theorem C7_longitude_column_name_witness:
  "row_dayton ''longitude '' = None \<and> row_sparse ''longitude '' = None \<and>
   rename_longitude row_dayton ''longitude '' = Some (PyStr ''-84.19'') \<and>
   rename_longitude row_dayton ''longitude'' = None \<and>
   process_rows float_decimal sample_today None 0
      (map rename_longitude [row_dayton, row_sparse]) [] =
   process_rows float_decimal sample_today None 0 [row_dayton, row_sparse] [] \<and>
   process_rows float_decimal sample_today None 0 [row_dayton, row_sparse] [] =
     Inr [sighting_of float_decimal sample_today 0 row_dayton,
          sighting_of float_decimal sample_today 1 row_sparse] \<and>
   longitude (sighting_of float_decimal sample_today 0 row_dayton) = - 8419 / 100"
proof -
  have h: "\<forall>r \<in> set [row_dayton, row_sparse]. r ''longitude '' = None"
    by (simp add: sample_defs)
  have e: "process_rows float_decimal sample_today None 0 [row_dayton, row_sparse] [] =
     Inr [sighting_of float_decimal sample_today 0 row_dayton,
          sighting_of float_decimal sample_today 1 row_sparse] \<and>
   longitude (sighting_of float_decimal sample_today 0 row_dayton) = - 8419 / 100"
    by (simp add: sample_defs eval_defs limit_reached_def row_step_def make_sighting_def)
  have n: "rename_longitude row_dayton ''longitude '' = Some (PyStr ''-84.19'') \<and>
   rename_longitude row_dayton ''longitude'' = None"
    by (simp add: rename_longitude_def sample_defs)
  show ?thesis
    using h e n C7_longitude_column_name [OF h, of float_decimal sample_today None]
    by (simp del: process_rows.simps)
qed

subsection \<open>The clock\<close>

lemma make_sighting_clock:
  assumes "truthy (cell r ''date posted'')"
  shows "make_sighting today1 i r lat lng = make_sighting today2 i r lat lng"
  using assms
  by (auto simp: make_sighting_def bind_exc_def getitem_def cell_def truthy_def
      split: option.splits)

lemma row_step_clock:
  assumes "truthy (cell r ''date posted'')"
  shows "row_step pf today1 i r = row_step pf today2 i r"
  using assms
  by (simp add: row_step_def make_sighting_clock [of r today1 _ _ _ today2] cong: if_cong)

lemma process_rows_clock:
  assumes "\<forall>r \<in> set rows. truthy (cell r ''date posted'')"
  shows "process_rows pf today1 limit i rows acc = process_rows pf today2 limit i rows acc"
  using assms
proof (induction rows arbitrary: i acc)
  case Nil
  show ?case by simp
next
  case (Cons r rs)
  then have "row_step pf today1 i r = row_step pf today2 i r"
    by (simp add: row_step_clock)
  with Cons show ?case by (simp split: sum.splits option.splits)
qed

text \<open>
  C8. The result of the loop is a function of the rows, the limit, the parser of floats and
  the clock, and the clock is the only input that differs between two runs on the same
  file. When the \<^verbatim>\<open>date posted\<close> of every row is non-empty, two runs without a limit give
  the same result whatever their clocks.
\<close>

theorem C8_same_result_on_every_run:
  assumes "\<forall>r \<in> set rows. truthy (cell r ''date posted'')"
  shows "process_rows pf today1 None 0 rows [] = process_rows pf today2 None 0 rows []"
  using assms by (rule process_rows_clock)

theorem C8_same_result_on_every_run_witness:
  "truthy (cell row_dayton ''date posted'') \<and> truthy (cell row_bad_latitude ''date posted'') \<and>
   sample_today 1 \<noteq> another_today 1 \<and>
   process_rows float_decimal sample_today None 0 [row_dayton, row_bad_latitude] [] =
   process_rows float_decimal another_today None 0 [row_dayton, row_bad_latitude] []"
proof -
  have h: "\<forall>r \<in> set [row_dayton, row_bad_latitude]. truthy (cell r ''date posted'')"
    by (simp add: sample_defs cell_def truthy_def)
  have d: "sample_today 1 \<noteq> another_today 1"
    by (simp add: sample_today_def another_today_def)
  show ?thesis
    using h d C8_same_result_on_every_run [OF h, of float_decimal sample_today another_today]
    by (simp del: process_rows.simps)
qed

text \<open>The precondition is needed: a row with an empty \<^verbatim>\<open>date posted\<close> shows the clock.\<close>

lemma clock_shows_when_posted_empty:
  "process_rows float_decimal sample_today None 0 [row_dayton, row_sparse] [] \<noteq>
   process_rows float_decimal another_today None 0 [row_dayton, row_sparse] []"
  by (simp add: sample_defs another_today_def eval_defs limit_reached_def row_step_def
      make_sighting_def)

subsection \<open>Fatal errors\<close>



subsection \<open>At most as many records as the limit and as the rows\<close>

text \<open>
  C10. With a limit \<open>n \<ge> 0\<close>, a run that returns has appended at most one sighting for each
  row that it scanned, and it has scanned no row of index \<open>n\<close> or more: the number of
  sightings is at most \<open>n\<close> and at most the number of rows.
\<close>

theorem C10_count_bounded:
  assumes "process_rows pf today (Some n) 0 rows [] = Inr out" and "0 \<le> n"
  shows "int (length out) \<le> n \<and> length out \<le> length rows"
proof -
  from process_rows_Inr [OF assms(1)]
  have "length out = length (filter valid_row (take (nat n) rows))"
    by (simp add: scan_from_Some_0 length_valid_rows)
  moreover have "length (filter valid_row (take (nat n) rows)) \<le> length (take (nat n) rows)"
    by (rule length_filter_le)
  ultimately have "length out \<le> min (length rows) (nat n)" by simp
  with assms(2) show ?thesis by linarith
qed

theorem C10_count_bounded_witness:
  "process_rows float_decimal sample_today (Some 2) 0 [row_dayton, row_no_city, row_sparse] [] =
     Inr [sighting_of float_decimal sample_today 0 row_dayton] \<and> (0::int) \<le> 2 \<and>
   int (length [sighting_of float_decimal sample_today 0 row_dayton]) \<le> 2 \<and>
   length [sighting_of float_decimal sample_today 0 row_dayton]
     \<le> length [row_dayton, row_no_city, row_sparse]"
proof -
  have h: "process_rows float_decimal sample_today (Some 2) 0
             [row_dayton, row_no_city, row_sparse] [] =
     Inr [sighting_of float_decimal sample_today 0 row_dayton]"
    by (simp add: sample_defs eval_defs limit_reached_def row_step_def make_sighting_def)
  show ?thesis
    using h C10_count_bounded [OF h] by simp
qed

end
